theory Spec2Isabelle
  imports Main "HOL-Library.Word"
begin

unbundle bit_operations_syntax

section \<open>Machine types\<close>

type_synonym u8 = "8 word"
type_synonym u16 = "16 word"
type_synonym u32 = "32 word"
type_synonym i32 = "32 word"

text \<open>
  \<open>float\<close> and \<open>double\<close> values are carried as their IEEE-754 bit patterns (binary32 and
  binary64): sign, biased exponent, fraction. The all-zero pattern is \<open>+0.0\<close>.
\<close>

type_synonym float = "32 word"
type_synonym double = "64 word"

section \<open>MagCalStatusPlugin (mag\_calibration\_status.cpp)\<close>

text \<open>
  The fields of the two inbound MAVLink messages that the handlers read. Every one of
  them is a \<open>uint8_t\<close>. The fields the handlers never touch are left out.
\<close>

record MAG_CAL_PROGRESS =
  compass_id :: u8
  cal_mask :: u8
  completion_pct :: u8

record MAG_CAL_REPORT =
  cal_status :: u8

text \<open>
  The plugin's state: the array \<open>uint8_t _rgCompassCalProgress[3]\<close> and, for each of the
  two publishers, the sequence of \<open>std_msgs::UInt8\<close> payloads it has been handed so far
  (\<open>mcs_pub\<close> is the topic "status", \<open>mcr_pub\<close> the topic "report").
\<close>

record MagCalStatusPlugin =
  rgCompassCalProgress :: "u8 list"
  mcs_pub :: "u8 list"
  mcr_pub :: "u8 list"

text \<open>The member initialiser \<open>_rgCompassCalProgress[3] = {0}\<close>, before anything is published.\<close>

definition MagCalStatusPlugin_init :: MagCalStatusPlugin where
  "MagCalStatusPlugin_init =
     \<lparr>rgCompassCalProgress = [0, 0, 0], mcs_pub = [], mcr_pub = []\<rparr>"

text \<open>
  The counting loop \<open>for (int i=0; i<3; i++) if (mp.cal_mask & (1 << i)) compassCalCount++;\<close>
  with the loop variable and the counter as arguments. The mask is promoted to \<open>int\<close>
  before the bitwise and, as in C++.
\<close>

function compassCalCount_loop :: "u8 \<Rightarrow> nat \<Rightarrow> int \<Rightarrow> int" where
  "compassCalCount_loop cm i c =
     (if i < 3
      then compassCalCount_loop cm (i + 1)
             (if uint cm AND push_bit i 1 \<noteq> 0 then c + 1 else c)
      else c)"
  by pat_completeness auto
termination
  by (relation "measure (\<lambda>(cm, i, c). 3 - i)") auto

declare compassCalCount_loop.simps [simp del]

text \<open>
  \<open>handle_status\<close>. The quotient \<open>mp.completion_pct / compassCalCount\<close> is computed on
  \<open>int\<close> (both operands are non-negative, so truncation and \<open>div\<close> agree) and stored into
  a \<open>uint8_t\<close>; the sum of the three entries is computed on \<open>int\<close> and stored into the
  \<open>uint8_t\<close> field \<open>data\<close> of the published message. The publish is unconditional.
\<close>

definition handle_status :: "MAG_CAL_PROGRESS \<Rightarrow> MagCalStatusPlugin \<Rightarrow> MagCalStatusPlugin" where
  "handle_status mp st =
     (let compassCalCount = compassCalCount_loop (cal_mask mp) 0 0;
          st1 = (if compass_id mp < 3 \<and> compassCalCount \<noteq> 0
                 then st\<lparr>rgCompassCalProgress :=
                        (rgCompassCalProgress st)
                          [unat (compass_id mp) :=
                             word_of_int (uint (completion_pct mp) div compassCalCount)]\<rparr>
                 else st);
          data = (word_of_int
                    (uint (rgCompassCalProgress st1 ! 0)
                     + uint (rgCompassCalProgress st1 ! 1)
                     + uint (rgCompassCalProgress st1 ! 2)) :: u8)
      in st1\<lparr>mcs_pub := mcs_pub st1 @ [data]\<rparr>)"

text \<open>\<open>handle_report\<close>: publish \<open>mr.cal_status\<close> on \<open>mcr_pub\<close>.\<close>

definition handle_report :: "MAG_CAL_REPORT \<Rightarrow> MagCalStatusPlugin \<Rightarrow> MagCalStatusPlugin" where
  "handle_report mr st = st\<lparr>mcr_pub := mcr_pub st @ [cal_status mr]\<rparr>"

text \<open>The number of set bits of a word, for comparison with the counting loop.\<close>

definition popcount :: "'a::len word \<Rightarrow> nat" where
  "popcount v = length (filter (bit v) [0..<LENGTH('a)])"

section \<open>Conversions between \<open>double\<close> and \<open>float\<close>\<close>

text \<open>
  An assignment of a \<open>double\<close> to a \<open>float\<close> object narrows the value: C++ converts it
  implicitly, and on the IEEE-754 targets the result is the nearest binary32 value, ties to
  the even fraction. \<open>round_shift n k\<close> is \<open>n / 2 ^ k\<close> rounded that way.
\<close>

definition round_shift :: "nat \<Rightarrow> nat \<Rightarrow> nat" where
  "round_shift n k =
     (let quo = n div 2 ^ k; r = n mod 2 ^ k; h = 2 ^ (k - 1)
      in if h < r then quo + 1
         else if r = h then (if even quo then quo else quo + 1)
         else quo)"

text \<open>
  Narrowing. With \<open>e\<close> the biased exponent and \<open>m\<close> the fraction of the \<open>double\<close>:
  infinities stay infinite and a NaN becomes a quiet NaN; from \<open>e = 897\<close> on the value is at
  least \<open>2 ^ -126\<close> and rounds to a normal \<open>float\<close> (a carry out of the fraction moves into
  the exponent, and anything beyond the largest finite \<open>float\<close> is infinite); below that it
  rounds to a multiple of \<open>2 ^ -149\<close>; a subnormal \<open>double\<close> rounds to zero.
\<close>

definition double_to_float :: "double \<Rightarrow> float" where
  "double_to_float d =
     (let n = unat d; s = n div 2 ^ 63; e = n div 2 ^ 52 mod 2 ^ 11; m = n mod 2 ^ 52;
          r = (if e = 2047 then (if m = 0 then 0x7F800000 else 0x7FC00000 + m div 2 ^ 29 mod 2 ^ 22)
               else if 897 \<le> e then min (round_shift ((e - 896) * 2 ^ 52 + m) 29) 0x7F800000
               else if 1 \<le> e then round_shift (2 ^ 52 + m) (926 - e)
               else 0)
      in word_of_nat (s * 2 ^ 31 + r))"

fun floor_log2 :: "nat \<Rightarrow> nat" where
  "floor_log2 n = (if n < 2 then 0 else 1 + floor_log2 (n div 2))"

declare floor_log2.simps [simp del]

text \<open>Widening, which reading a \<open>float\<close> into a \<open>double\<close> performs, loses nothing.\<close>

definition float_to_double :: "float \<Rightarrow> double" where
  "float_to_double f =
     (let n = unat f; s = n div 2 ^ 31; e = n div 2 ^ 23 mod 2 ^ 8; m = n mod 2 ^ 23;
          r = (if e = 255
               then (if m = 0 then 0x7FF0000000000000
                     else 0x7FF8000000000000 + (m mod 2 ^ 22) * 2 ^ 29)
               else if 1 \<le> e then (e + 896) * 2 ^ 52 + m * 2 ^ 29
               else if m = 0 then 0
               else (let k = floor_log2 m in (k + 874) * 2 ^ 52 + (m - 2 ^ k) * 2 ^ (52 - k)))
      in word_of_nat (s * 2 ^ 63 + r))"

text \<open>A \<open>double\<close> that survives the narrowing unchanged.\<close>

definition float_exact :: "double \<Rightarrow> bool" where
  "float_exact d = (float_to_double (double_to_float d) = d)"

section \<open>Setpoint mixins (setpoint\_mixin.hpp)\<close>

text \<open>\<open>Eigen::Vector3d\<close> and \<open>Eigen::Quaterniond\<close>, by their accessors.\<close>

record Vector3d =
  x :: double
  y :: double
  z :: double

record Quaterniond =
  w :: double
  x :: double
  y :: double
  z :: double

text \<open>
  The part of \<open>mavros::UAS\<close> that the mixins use, for one message type \<open>'m\<close> (both members
  are templates over the message type). \<open>msg_set_target\<close> is defined outside this file
  and is taken as it comes; \<open>sent\<close> is the sequence of messages handed to \<open>send_message\<close>.
\<close>

record 'm UAS =
  msg_set_target :: "'m \<Rightarrow> 'm"
  sent :: "'m list"

text \<open>
  Modelled from the spec: \<open>UAS::send_message\<close> (mavros\_uas.hpp, not part of the two files
  above) hands the completed message to the transport and waits for nothing.
\<close>

definition send_message :: "'m \<Rightarrow> 'm UAS \<Rightarrow> 'm UAS" where
  "send_message msg uas = uas\<lparr>sent := sent uas @ [msg]\<rparr>"

text \<open>
  The three outbound MAVLink structures of \<open>mavlink::common::msg\<close>; the comment above each
  mixin function names the message specification. Each record lists the fields that the
  mixin assigns by name: the integer fields with the width of the mixin's own parameter, the
  others of C++ type \<open>float\<close>, as the specification has them and as the mixin's \<open>float\<close>
  parameters \<open>yaw\<close>, \<open>yaw_rate\<close>, \<open>alt\<close> and \<open>thrust\<close> have them. The extension slot of the
  record stands for whatever else the structure holds; \<open>msg_set_target\<close> may write there.
\<close>

record SET_POSITION_TARGET_LOCAL_NED =
  time_boot_ms :: u32
  coordinate_frame :: u8
  type_mask :: u16
  yaw :: float
  yaw_rate :: float
  x :: float
  y :: float
  z :: float
  vx :: float
  vy :: float
  vz :: float
  afx :: float
  afy :: float
  afz :: float

record SET_POSITION_TARGET_GLOBAL_INT =
  time_boot_ms :: u32
  coordinate_frame :: u8
  type_mask :: u16
  lat_int :: i32
  lon_int :: i32
  alt :: float
  yaw :: float
  yaw_rate :: float
  vx :: float
  vy :: float
  vz :: float
  afx :: float
  afy :: float
  afz :: float

record SET_ATTITUDE_TARGET =
  q :: "float \<times> float \<times> float \<times> float"
  time_boot_ms :: u32
  type_mask :: u8
  thrust :: float
  body_roll_rate :: float
  body_pitch_rate :: float
  body_yaw_rate :: float

text \<open>The value-initialisation \<open>sp = {}\<close>: every member of the structure is zero.\<close>

definition SET_POSITION_TARGET_LOCAL_NED_zero ::
  "'r::zero SET_POSITION_TARGET_LOCAL_NED_scheme" where
  "SET_POSITION_TARGET_LOCAL_NED_zero =
     \<lparr>SET_POSITION_TARGET_LOCAL_NED.time_boot_ms = 0, coordinate_frame = 0, type_mask = 0,
      yaw = 0, yaw_rate = 0, x = 0, y = 0, z = 0, vx = 0, vy = 0, vz = 0, afx = 0, afy = 0, afz = 0, \<dots> = 0\<rparr>"

definition SET_POSITION_TARGET_GLOBAL_INT_zero ::
  "'r::zero SET_POSITION_TARGET_GLOBAL_INT_scheme" where
  "SET_POSITION_TARGET_GLOBAL_INT_zero =
     \<lparr>SET_POSITION_TARGET_GLOBAL_INT.time_boot_ms = 0, coordinate_frame = 0, type_mask = 0,
      lat_int = 0, lon_int = 0, alt = 0, yaw = 0, yaw_rate = 0, vx = 0, vy = 0, vz = 0, afx = 0, afy = 0, afz = 0,
      \<dots> = 0\<rparr>"

definition SET_ATTITUDE_TARGET_zero :: "'r::zero SET_ATTITUDE_TARGET_scheme" where
  "SET_ATTITUDE_TARGET_zero =
     \<lparr>q = (0, 0, 0, 0), time_boot_ms = 0, type_mask = 0, thrust = 0, body_roll_rate = 0,
      body_pitch_rate = 0, body_yaw_rate = 0, \<dots> = 0\<rparr>"

text \<open>
  Modelled from the spec: \<open>mavros::ftf::quaternion_to_mavlink\<close> (frame\_tf.hpp, not part of
  the two files above) converts the quaternion to the protocol's four scalars, in the
  protocol's order \<open>w, x, y, z\<close>. It writes them into the \<open>float[4]\<close> member \<open>q\<close>, so each
  one is narrowed.
\<close>

definition quaternion_to_mavlink :: "Quaterniond \<Rightarrow> float \<times> float \<times> float \<times> float" where
  "quaternion_to_mavlink orientation =
     (double_to_float (w orientation), double_to_float (Quaterniond.x orientation),
      double_to_float (Quaterniond.y orientation), double_to_float (Quaterniond.z orientation))"

text \<open>
  Modelled from the spec: the decoding of the wire quaternion, \<open>mavlink_to_quaternion\<close> of the
  same header, reads the four scalars back in the same order.
\<close>

definition mavlink_to_quaternion :: "float \<times> float \<times> float \<times> float \<Rightarrow> Quaterniond" where
  "mavlink_to_quaternion qmsg =
     (case qmsg of (q0, q1, q2, q3) \<Rightarrow>
        \<lparr>w = float_to_double q0, x = float_to_double q1,
         y = float_to_double q2, z = float_to_double q3\<rparr>)"

text \<open>\<open>set_position_target_local_ned\<close>, statement by statement.\<close>

definition set_position_target_local_ned ::
  "u32 \<Rightarrow> u8 \<Rightarrow> u16 \<Rightarrow> Vector3d \<Rightarrow> Vector3d \<Rightarrow> Vector3d \<Rightarrow> float \<Rightarrow> float
   \<Rightarrow> ('r::zero SET_POSITION_TARGET_LOCAL_NED_scheme) UAS
   \<Rightarrow> ('r SET_POSITION_TARGET_LOCAL_NED_scheme) UAS" where
  "set_position_target_local_ned time_boot_ms' coordinate_frame' type_mask' p v af
     yaw' yaw_rate' uas =
     (let sp = SET_POSITION_TARGET_LOCAL_NED_zero;
          sp = msg_set_target uas sp;
          sp = sp\<lparr>SET_POSITION_TARGET_LOCAL_NED.time_boot_ms := time_boot_ms'\<rparr>;
          sp = sp\<lparr>SET_POSITION_TARGET_LOCAL_NED.coordinate_frame := coordinate_frame'\<rparr>;
          sp = sp\<lparr>SET_POSITION_TARGET_LOCAL_NED.type_mask := type_mask'\<rparr>;
          sp = sp\<lparr>SET_POSITION_TARGET_LOCAL_NED.yaw := yaw'\<rparr>;
          sp = sp\<lparr>SET_POSITION_TARGET_LOCAL_NED.yaw_rate := yaw_rate'\<rparr>;
          sp = sp\<lparr>SET_POSITION_TARGET_LOCAL_NED.x := double_to_float (Vector3d.x p)\<rparr>;
          sp = sp\<lparr>SET_POSITION_TARGET_LOCAL_NED.y := double_to_float (Vector3d.y p)\<rparr>;
          sp = sp\<lparr>SET_POSITION_TARGET_LOCAL_NED.z := double_to_float (Vector3d.z p)\<rparr>;
          sp = sp\<lparr>SET_POSITION_TARGET_LOCAL_NED.vx := double_to_float (Vector3d.x v)\<rparr>;
          sp = sp\<lparr>SET_POSITION_TARGET_LOCAL_NED.vy := double_to_float (Vector3d.y v)\<rparr>;
          sp = sp\<lparr>SET_POSITION_TARGET_LOCAL_NED.vz := double_to_float (Vector3d.z v)\<rparr>;
          sp = sp\<lparr>SET_POSITION_TARGET_LOCAL_NED.afx := double_to_float (Vector3d.x af)\<rparr>;
          sp = sp\<lparr>SET_POSITION_TARGET_LOCAL_NED.afy := double_to_float (Vector3d.y af)\<rparr>;
          sp = sp\<lparr>SET_POSITION_TARGET_LOCAL_NED.afz := double_to_float (Vector3d.z af)\<rparr>
      in send_message sp uas)"

text \<open>\<open>set_position_target_global_int\<close>.\<close>

definition set_position_target_global_int ::
  "u32 \<Rightarrow> u8 \<Rightarrow> u16 \<Rightarrow> i32 \<Rightarrow> i32 \<Rightarrow> float \<Rightarrow> Vector3d \<Rightarrow> Vector3d \<Rightarrow> float \<Rightarrow> float
   \<Rightarrow> ('r::zero SET_POSITION_TARGET_GLOBAL_INT_scheme) UAS
   \<Rightarrow> ('r SET_POSITION_TARGET_GLOBAL_INT_scheme) UAS" where
  "set_position_target_global_int time_boot_ms' coordinate_frame' type_mask'
     lat_int' lon_int' alt' v af yaw' yaw_rate' uas =
     (let sp = SET_POSITION_TARGET_GLOBAL_INT_zero;
          sp = msg_set_target uas sp;
          sp = sp\<lparr>SET_POSITION_TARGET_GLOBAL_INT.time_boot_ms := time_boot_ms'\<rparr>;
          sp = sp\<lparr>SET_POSITION_TARGET_GLOBAL_INT.coordinate_frame := coordinate_frame'\<rparr>;
          sp = sp\<lparr>SET_POSITION_TARGET_GLOBAL_INT.type_mask := type_mask'\<rparr>;
          sp = sp\<lparr>lat_int := lat_int'\<rparr>;
          sp = sp\<lparr>lon_int := lon_int'\<rparr>;
          sp = sp\<lparr>alt := alt'\<rparr>;
          sp = sp\<lparr>SET_POSITION_TARGET_GLOBAL_INT.yaw := yaw'\<rparr>;
          sp = sp\<lparr>SET_POSITION_TARGET_GLOBAL_INT.yaw_rate := yaw_rate'\<rparr>;
          sp = sp\<lparr>SET_POSITION_TARGET_GLOBAL_INT.vx := double_to_float (Vector3d.x v)\<rparr>;
          sp = sp\<lparr>SET_POSITION_TARGET_GLOBAL_INT.vy := double_to_float (Vector3d.y v)\<rparr>;
          sp = sp\<lparr>SET_POSITION_TARGET_GLOBAL_INT.vz := double_to_float (Vector3d.z v)\<rparr>;
          sp = sp\<lparr>SET_POSITION_TARGET_GLOBAL_INT.afx := double_to_float (Vector3d.x af)\<rparr>;
          sp = sp\<lparr>SET_POSITION_TARGET_GLOBAL_INT.afy := double_to_float (Vector3d.y af)\<rparr>;
          sp = sp\<lparr>SET_POSITION_TARGET_GLOBAL_INT.afz := double_to_float (Vector3d.z af)\<rparr>
      in send_message sp uas)"

text \<open>\<open>set_attitude_target\<close>.\<close>

definition set_attitude_target ::
  "u32 \<Rightarrow> u8 \<Rightarrow> Quaterniond \<Rightarrow> Vector3d \<Rightarrow> float
   \<Rightarrow> ('r::zero SET_ATTITUDE_TARGET_scheme) UAS \<Rightarrow> ('r SET_ATTITUDE_TARGET_scheme) UAS" where
  "set_attitude_target time_boot_ms' type_mask' orientation body_rate thrust' uas =
     (let sp = SET_ATTITUDE_TARGET_zero;
          sp = msg_set_target uas sp;
          sp = sp\<lparr>q := quaternion_to_mavlink orientation\<rparr>;
          sp = sp\<lparr>SET_ATTITUDE_TARGET.time_boot_ms := time_boot_ms'\<rparr>;
          sp = sp\<lparr>SET_ATTITUDE_TARGET.type_mask := type_mask'\<rparr>;
          sp = sp\<lparr>thrust := thrust'\<rparr>;
          sp = sp\<lparr>body_roll_rate := double_to_float (Vector3d.x body_rate)\<rparr>;
          sp = sp\<lparr>body_pitch_rate := double_to_float (Vector3d.y body_rate)\<rparr>;
          sp = sp\<lparr>body_yaw_rate := double_to_float (Vector3d.z body_rate)\<rparr>
      in send_message sp uas)"

text \<open>
  Two quaternions stand for the same rotation when they are equal or each other's negation;
  negating a \<open>double\<close> flips its sign bit.
\<close>

definition qneg :: "Quaterniond \<Rightarrow> Quaterniond" where
  "qneg r =
     \<lparr>w = w r XOR 0x8000000000000000, x = Quaterniond.x r XOR 0x8000000000000000,
      y = Quaterniond.y r XOR 0x8000000000000000, z = Quaterniond.z r XOR 0x8000000000000000\<rparr>"

definition same_rotation :: "Quaterniond \<Rightarrow> Quaterniond \<Rightarrow> bool" where
  "same_rotation a b = (a = b \<or> a = qneg b)"

section \<open>The calibration handlers: what they do\<close>

lemma and_push_bit_uint: "(uint cm AND push_bit i 1 \<noteq> 0) = bit cm i"
proof -
  have "(uint cm AND push_bit i 1 \<noteq> 0) = bit (uint cm) i"
    by (simp only: bit_iff_and_push_bit_not_eq_0)
  also have "\<dots> = bit cm i"
    by (auto simp: bit_uint_iff dest: bit_imp_le_length)
  finally show ?thesis .
qed

lemma compassCalCount_loop_step:
  "compassCalCount_loop cm i c =
     (if i < 3 then compassCalCount_loop cm (i + 1) (if bit cm i then c + 1 else c) else c)"
  by (subst compassCalCount_loop.simps) (simp only: and_push_bit_uint)

lemma compassCalCount_bits:
  "compassCalCount_loop cm 0 0 =
     (if bit cm 0 then 1 else 0) + (if bit cm 1 then 1 else 0) + (if bit cm 2 then 1 else 0)"
proof -
  have "compassCalCount_loop cm 0 0 = compassCalCount_loop cm 1 (if bit cm 0 then 1 else 0)"
    by (subst compassCalCount_loop_step) (simp add: numeral_2_eq_2 numeral_3_eq_3)
  also have "\<dots> = compassCalCount_loop cm 2
      ((if bit cm 0 then 1 else 0) + (if bit cm 1 then 1 else 0))"
    by (subst compassCalCount_loop_step) (simp add: numeral_2_eq_2 numeral_3_eq_3)
  also have "\<dots> = compassCalCount_loop cm 3
      ((if bit cm 0 then 1 else 0) + (if bit cm 1 then 1 else 0) + (if bit cm 2 then 1 else 0))"
    by (subst compassCalCount_loop_step) (simp add: numeral_2_eq_2 numeral_3_eq_3)
  also have "\<dots> =
      (if bit cm 0 then 1 else 0) + (if bit cm 1 then 1 else 0) + (if bit cm 2 then 1 else 0)"
    by (subst compassCalCount_loop_step) (simp add: numeral_2_eq_2 numeral_3_eq_3)
  finally show ?thesis .
qed

lemma upt8: "[0..<8] = [0, 1, 2, 3, 4, 5, 6, 7::nat]"
  by (simp add: upt_rec)

lemma popcount_low3:
  "popcount (cm AND (7::u8)) =
     (if bit cm 0 then 1 else 0) + (if bit cm 1 then 1 else 0) + (if bit cm 2 then 1 else 0)"
  by (simp add: popcount_def upt8 bit_and_iff)

lemma compassCalCount_popcount:
  "compassCalCount_loop cm 0 0 = int (popcount (cm AND 7))"
  by (simp add: compassCalCount_bits popcount_low3)

lemma low3_zero: "(cm AND (7::u8) = 0) = (\<not> bit cm 0 \<and> \<not> bit cm 1 \<and> \<not> bit cm 2)"
proof -
  have seven: "(7::u8) = mask 3"
    by (simp add: mask_eq_exp_minus_1)
  have "(cm AND (7::u8) = 0) = (take_bit 3 cm = 0)"
    by (simp add: seven take_bit_eq_mask)
  also have "\<dots> = (\<forall>n<3. \<not> bit cm n)"
    by (auto simp: bit_eq_iff bit_take_bit_iff)
  also have "\<dots> = (\<not> bit cm 0 \<and> \<not> bit cm 1 \<and> \<not> bit cm 2)"
    by (auto simp: numeral_3_eq_3 numeral_2_eq_2 less_Suc_eq)
  finally show ?thesis .
qed

lemma compassCalCount_zero: "(compassCalCount_loop cm 0 0 = 0) = (cm AND 7 = 0)"
  by (simp add: compassCalCount_bits low3_zero)

lemma data_sum: "(word_of_int (uint (a::u8) + uint (b::u8) + uint (c::u8)) :: u8) = a + b + c"
  by simp

lemma unat_sum3: "unat (a + b + c :: u8) = (unat a + unat b + unat c) mod 256"
  by (simp add: unat_word_ariths mod_simps)

lemma unat_quotient: "unat (word_of_int (uint (a::u8) div int n) :: u8) = unat a div n"
proof -
  have "uint a div int n = int (unat a div n)"
    by (simp add: zdiv_int)
  moreover have "unat a < 2 ^ LENGTH(8)"
    by (rule unsigned_less)
  then have "unat a < 256"
    by simp
  then have "unat a div n < 256"
    using div_le_dividend [of "unat a" n] by linarith
  ultimately show ?thesis
    by (simp add: take_bit_nat_eq_self unsigned_of_nat)
qed


lemma handle_status_eq:
  "handle_status mp st =
     (let st1 = (if compass_id mp < 3 \<and> cal_mask mp AND 7 \<noteq> 0
                 then st\<lparr>rgCompassCalProgress :=
                        (rgCompassCalProgress st)
                          [unat (compass_id mp) :=
                             word_of_int (uint (completion_pct mp)
                               div int (popcount (cal_mask mp AND 7)))]\<rparr>
                 else st)
      in st1\<lparr>mcs_pub := mcs_pub st1 @
            [rgCompassCalProgress st1 ! 0 + rgCompassCalProgress st1 ! 1
             + rgCompassCalProgress st1 ! 2]\<rparr>)"
  unfolding handle_status_def Let_def data_sum compassCalCount_zero
  by (simp only: compassCalCount_popcount)

text \<open>The array keeps its three entries.\<close>

lemma MagCalStatusPlugin_init_length:
  "length (rgCompassCalProgress MagCalStatusPlugin_init) = 3"
  by (simp add: MagCalStatusPlugin_init_def)

lemma handle_status_length:
  "length (rgCompassCalProgress (handle_status mp st)) = length (rgCompassCalProgress st)"
  by (simp add: handle_status_eq Let_def)

lemma handle_report_length:
  "length (rgCompassCalProgress (handle_report mr st)) = length (rgCompassCalProgress st)"
  by (simp add: handle_report_def)

lemma unat_lt_3: "(a::u8) < 3 \<Longrightarrow> unat a < 3"
  by (simp add: word_less_nat_alt)

text \<open>
  Claim C2, as the code has it. For a progress report with \<open>compass_id < 3\<close> and at least one
  of the low three bits of \<open>cal_mask\<close> set, \<open>handle_status\<close> stores into the entry
  \<open>compass_id\<close> the quotient of \<open>completion_pct\<close> by the number of set bits among the low
  three bits of \<open>cal_mask\<close>, leaves the other entries alone, and publishes on \<open>mcs_pub\<close> the
  sum of the three entries as an unsigned byte. The scenario of the spec holds: from the
  initial state, the report \<open>(0, 0b011, 50)\<close> gives \<open>[25, 0, 0]\<close> and publishes 25, and the
  report \<open>(1, 0b011, 100)\<close> then gives \<open>[25, 50, 0]\<close> and publishes 75.
\<close>

theorem handle_status_progress:
  assumes "compass_id mp < 3"
    and "cal_mask mp AND 7 \<noteq> 0"
    and "length (rgCompassCalProgress st) = 3"
  shows "unat (rgCompassCalProgress (handle_status mp st) ! unat (compass_id mp))
           = unat (completion_pct mp) div popcount (cal_mask mp AND 7)
       \<and> (\<forall>j. j \<noteq> unat (compass_id mp) \<longrightarrow>
             rgCompassCalProgress (handle_status mp st) ! j = rgCompassCalProgress st ! j)
       \<and> length (rgCompassCalProgress (handle_status mp st)) = 3
       \<and> mcs_pub (handle_status mp st) =
             mcs_pub st @ [rgCompassCalProgress (handle_status mp st) ! 0
                           + rgCompassCalProgress (handle_status mp st) ! 1
                           + rgCompassCalProgress (handle_status mp st) ! 2]
       \<and> mcr_pub (handle_status mp st) = mcr_pub st
       \<and> handle_status \<lparr>compass_id = 0, cal_mask = 3, completion_pct = 50\<rparr>
             MagCalStatusPlugin_init
           = \<lparr>rgCompassCalProgress = [25, 0, 0], mcs_pub = [25], mcr_pub = []\<rparr>
       \<and> handle_status \<lparr>compass_id = 1, cal_mask = 3, completion_pct = 100\<rparr>
             \<lparr>rgCompassCalProgress = [25, 0, 0], mcs_pub = [25], mcr_pub = []\<rparr>
           = \<lparr>rgCompassCalProgress = [25, 50, 0], mcs_pub = [25, 75], mcr_pub = []\<rparr>"
proof -
  have i: "unat (compass_id mp) < length (rgCompassCalProgress st)"
    using assms(1,3) by (simp add: unat_lt_3)
  have upd: "rgCompassCalProgress (handle_status mp st) =
      (rgCompassCalProgress st)
        [unat (compass_id mp) :=
           word_of_int (uint (completion_pct mp) div int (popcount (cal_mask mp AND 7)))]"
    using assms(1,2) by (simp add: handle_status_eq Let_def)
  have 1: "unat (rgCompassCalProgress (handle_status mp st) ! unat (compass_id mp))
           = unat (completion_pct mp) div popcount (cal_mask mp AND 7)"
    using i by (simp add: upd unat_quotient)
  have 2: "\<forall>j. j \<noteq> unat (compass_id mp) \<longrightarrow>
             rgCompassCalProgress (handle_status mp st) ! j = rgCompassCalProgress st ! j"
    by (simp add: upd)
  have 3: "length (rgCompassCalProgress (handle_status mp st)) = 3"
    using assms(3) by (simp add: upd)
  have 4: "mcs_pub (handle_status mp st) =
             mcs_pub st @ [rgCompassCalProgress (handle_status mp st) ! 0
                           + rgCompassCalProgress (handle_status mp st) ! 1
                           + rgCompassCalProgress (handle_status mp st) ! 2]"
    by (simp add: handle_status_eq Let_def)
  have 5: "mcr_pub (handle_status mp st) = mcr_pub st"
    by (simp add: handle_status_eq Let_def)
  have 6: "handle_status \<lparr>compass_id = 0, cal_mask = 3, completion_pct = 50\<rparr>
             MagCalStatusPlugin_init
           = \<lparr>rgCompassCalProgress = [25, 0, 0], mcs_pub = [25], mcr_pub = []\<rparr>"
    by (simp add: handle_status_def compassCalCount_bits MagCalStatusPlugin_init_def)
  have 7: "handle_status \<lparr>compass_id = 1, cal_mask = 3, completion_pct = 100\<rparr>
             \<lparr>rgCompassCalProgress = [25, 0, 0], mcs_pub = [25], mcr_pub = []\<rparr>
           = \<lparr>rgCompassCalProgress = [25, 50, 0], mcs_pub = [25, 75], mcr_pub = []\<rparr>"
    by (simp add: handle_status_def compassCalCount_bits)
  from 1 2 3 4 5 6 7 show ?thesis by blast
qed

text \<open>The second report of the scenario satisfies the hypotheses.\<close>

theorem handle_status_progress_witness:
  "compass_id \<lparr>compass_id = 1, cal_mask = 3, completion_pct = 100\<rparr> < 3
   \<and> cal_mask \<lparr>compass_id = 1, cal_mask = 3, completion_pct = 100\<rparr> AND 7 \<noteq> 0
   \<and> length (rgCompassCalProgress
         \<lparr>rgCompassCalProgress = [25, 0, 0], mcs_pub = [25], mcr_pub = []\<rparr>) = 3
   \<and> unat (rgCompassCalProgress
         (handle_status \<lparr>compass_id = 1, cal_mask = 3, completion_pct = 100\<rparr>
            \<lparr>rgCompassCalProgress = [25, 0, 0], mcs_pub = [25], mcr_pub = []\<rparr>) ! 1) = 50
   \<and> mcs_pub (handle_status \<lparr>compass_id = 1, cal_mask = 3, completion_pct = 100\<rparr>
            \<lparr>rgCompassCalProgress = [25, 0, 0], mcs_pub = [25], mcr_pub = []\<rparr>) = [25, 75]"
proof -
  have h1: "compass_id \<lparr>compass_id = 1, cal_mask = 3, completion_pct = 100\<rparr> < 3"
    by simp
  have h2: "cal_mask \<lparr>compass_id = 1, cal_mask = 3, completion_pct = 100\<rparr> AND 7 \<noteq> 0"
    by simp
  have h3: "length (rgCompassCalProgress
         \<lparr>rgCompassCalProgress = [25, 0, 0], mcs_pub = [25], mcr_pub = []\<rparr>) = 3"
    by simp
  show ?thesis
    using h1 h2 h3 handle_status_progress [OF h1 h2 h3]
    by simp
qed

text \<open>
  The divisor is not the number of set bits of the whole mask: with \<open>cal_mask = 0b1001\<close> the
  loop counts one compass, the entry becomes 100, and the quotient by the two set bits of
  the mask would be 50.
\<close>

theorem handle_status_popcount_counterexample:
  "compass_id \<lparr>compass_id = 0, cal_mask = 9, completion_pct = 100\<rparr> < 3
   \<and> cal_mask \<lparr>compass_id = 0, cal_mask = 9, completion_pct = 100\<rparr> AND 7 \<noteq> 0
   \<and> unat (rgCompassCalProgress
         (handle_status \<lparr>compass_id = 0, cal_mask = 9, completion_pct = 100\<rparr>
            MagCalStatusPlugin_init) ! 0) = 100
   \<and> unat (completion_pct \<lparr>compass_id = 0, cal_mask = 9, completion_pct = 100\<rparr>)
         div popcount (cal_mask \<lparr>compass_id = 0, cal_mask = 9, completion_pct = 100\<rparr>) = 50
   \<and> unat (rgCompassCalProgress
         (handle_status \<lparr>compass_id = 0, cal_mask = 9, completion_pct = 100\<rparr>
            MagCalStatusPlugin_init) ! 0)
       \<noteq> unat (completion_pct \<lparr>compass_id = 0, cal_mask = 9, completion_pct = 100\<rparr>)
           div popcount (cal_mask \<lparr>compass_id = 0, cal_mask = 9, completion_pct = 100\<rparr>)"
proof -
  have "popcount (9::u8) = 2"
    by (simp add: popcount_def upt8)
  then show ?thesis
    by (simp add: handle_status_def compassCalCount_bits MagCalStatusPlugin_init_def)
qed

text \<open>
  Claim C3, as the code has it. A report with \<open>compass_id \<ge> 3\<close>, or with no bit set in
  \<open>cal_mask\<close>, changes neither the progress array nor \<open>mcr_pub\<close>; \<open>handle_status\<close> still
  publishes on \<open>mcs_pub\<close>, namely the aggregate of the unchanged entries.
\<close>

theorem handle_status_ignored:
  assumes "3 \<le> compass_id mp \<or> cal_mask mp = 0"
  shows "rgCompassCalProgress (handle_status mp st) = rgCompassCalProgress st
       \<and> mcr_pub (handle_status mp st) = mcr_pub st
       \<and> mcs_pub (handle_status mp st) =
             mcs_pub st @ [rgCompassCalProgress st ! 0 + rgCompassCalProgress st ! 1
                           + rgCompassCalProgress st ! 2]"
proof -
  have n: "\<not> (compass_id mp < 3 \<and> cal_mask mp AND 7 \<noteq> 0)"
    using assms by (auto simp: not_less [symmetric])
  have "handle_status mp st =
      st\<lparr>mcs_pub := mcs_pub st @ [rgCompassCalProgress st ! 0 + rgCompassCalProgress st ! 1
                                    + rgCompassCalProgress st ! 2]\<rparr>"
    by (subst handle_status_eq) (simp only: Let_def if_not_P [OF n])
  then show ?thesis
    by simp
qed

text \<open>A report for compass 5 after the scenario: the aggregate 75 is published again.\<close>

theorem handle_status_ignored_witness:
  "(3 \<le> compass_id \<lparr>compass_id = 5, cal_mask = 3, completion_pct = 50\<rparr>
      \<or> cal_mask \<lparr>compass_id = 5, cal_mask = 3, completion_pct = 50\<rparr> = 0)
   \<and> rgCompassCalProgress
         (handle_status \<lparr>compass_id = 5, cal_mask = 3, completion_pct = 50\<rparr>
            \<lparr>rgCompassCalProgress = [25, 50, 0], mcs_pub = [25, 75], mcr_pub = []\<rparr>)
       = [25, 50, 0]
   \<and> mcs_pub
         (handle_status \<lparr>compass_id = 5, cal_mask = 3, completion_pct = 50\<rparr>
            \<lparr>rgCompassCalProgress = [25, 50, 0], mcs_pub = [25, 75], mcr_pub = []\<rparr>)
       = [25, 75, 75]"
proof -
  have h: "3 \<le> compass_id \<lparr>compass_id = 5, cal_mask = 3, completion_pct = 50\<rparr>
      \<or> cal_mask \<lparr>compass_id = 5, cal_mask = 3, completion_pct = 50\<rparr> = 0"
    by simp
  show ?thesis
    using h handle_status_ignored [OF h,
        of "\<lparr>rgCompassCalProgress = [25, 50, 0], mcs_pub = [25, 75], mcr_pub = []\<rparr>"]
    by simp
qed

text \<open>
  A report for compass 5 does publish: on the initial state, where nothing has been
  published, it puts the aggregate 0 on \<open>mcs_pub\<close>.
\<close>

theorem handle_status_ignored_counterexample:
  "3 \<le> compass_id \<lparr>compass_id = 5, cal_mask = 3, completion_pct = 50\<rparr>
   \<and> mcs_pub MagCalStatusPlugin_init = []
   \<and> mcs_pub (handle_status \<lparr>compass_id = 5, cal_mask = 3, completion_pct = 50\<rparr>
        MagCalStatusPlugin_init) = [0]
   \<and> mcs_pub (handle_status \<lparr>compass_id = 5, cal_mask = 3, completion_pct = 50\<rparr>
        MagCalStatusPlugin_init) \<noteq> mcs_pub MagCalStatusPlugin_init"
  by (simp add: handle_status_def compassCalCount_bits MagCalStatusPlugin_init_def)

text \<open>
  Claim C9. \<open>handle_report\<close> publishes \<open>cal_status\<close> unchanged on \<open>mcr_pub\<close>, the channel of
  its own, and leaves the progress array and \<open>mcs_pub\<close> as they are; it commutes with
  \<open>handle_status\<close>, so the two never interact. After the scenario of the spec a report with
  \<open>cal_status = 4\<close> publishes 4 and the progress stays \<open>[25, 50, 0]\<close>.
\<close>

theorem handle_report_publishes:
  "mcr_pub (handle_report mr st) = mcr_pub st @ [cal_status mr]
   \<and> rgCompassCalProgress (handle_report mr st) = rgCompassCalProgress st
   \<and> mcs_pub (handle_report mr st) = mcs_pub st
   \<and> handle_status mp (handle_report mr st) = handle_report mr (handle_status mp st)
   \<and> handle_report \<lparr>cal_status = 4\<rparr>
        \<lparr>rgCompassCalProgress = [25, 50, 0], mcs_pub = [25, 75], mcr_pub = []\<rparr>
      = \<lparr>rgCompassCalProgress = [25, 50, 0], mcs_pub = [25, 75], mcr_pub = [4]\<rparr>"
  by (simp add: handle_report_def handle_status_eq Let_def)

text \<open>
  Claim C10. In every state and for every report, \<open>handle_status\<close> publishes exactly one
  value, and that value is the sum of the three entries of the progress array, as they are
  after the report, reduced modulo 256. The sum wraps and does not saturate: the reports
  \<open>(0, 0b001, 200)\<close> and \<open>(1, 0b010, 100)\<close> lead to the entries \<open>[200, 100, 0]\<close> and to the
  published value \<open>300 mod 256 = 44\<close>.
\<close>

theorem handle_status_aggregate_mod_256:
  "mcs_pub (handle_status mp st) = mcs_pub st @ [last (mcs_pub (handle_status mp st))]
   \<and> unat (last (mcs_pub (handle_status mp st)))
       = (unat (rgCompassCalProgress (handle_status mp st) ! 0)
          + unat (rgCompassCalProgress (handle_status mp st) ! 1)
          + unat (rgCompassCalProgress (handle_status mp st) ! 2)) mod 256
   \<and> handle_status \<lparr>compass_id = 1, cal_mask = 2, completion_pct = 100\<rparr>
        (handle_status \<lparr>compass_id = 0, cal_mask = 1, completion_pct = 200\<rparr>
           MagCalStatusPlugin_init)
      = \<lparr>rgCompassCalProgress = [200, 100, 0], mcs_pub = [200, 44], mcr_pub = []\<rparr>"
proof -
  have "handle_status \<lparr>compass_id = 1, cal_mask = 2, completion_pct = 100\<rparr>
        (handle_status \<lparr>compass_id = 0, cal_mask = 1, completion_pct = 200\<rparr>
           MagCalStatusPlugin_init)
      = \<lparr>rgCompassCalProgress = [200, 100, 0], mcs_pub = [200, 44], mcr_pub = []\<rparr>"
    by (simp add: handle_status_def compassCalCount_bits MagCalStatusPlugin_init_def)
  then show ?thesis
    by (simp add: handle_status_eq Let_def unat_sum3)
qed

section \<open>The setpoint mixins: what they do\<close>

lemmas encoder_defs =
  set_position_target_local_ned_def set_position_target_global_int_def
  set_attitude_target_def send_message_def Let_def

lemma float_exact_round_trip: "float_exact d \<Longrightarrow> float_to_double (double_to_float d) = d"
  by (simp add: float_exact_def)

text \<open>
  No narrowing from 64 to 32 bits can be undone on every input, whatever its rounding:
  there are more \<open>double\<close> patterns than \<open>float\<close> patterns.
\<close>

lemma narrowing_not_injective: "\<not> inj (n :: double \<Rightarrow> float)"
proof
  assume "inj n"
  then have "card (UNIV :: double set) \<le> card (UNIV :: float set)"
    by (rule card_inj_on_le) simp_all
  then show False
    by (simp add: card_word)
qed

lemma narrowing_loses: "\<exists>d. back ((n :: double \<Rightarrow> float) d) \<noteq> d"
proof (rule ccontr)
  assume "\<not> (\<exists>d. back (n d) \<noteq> d)"
  then have "\<And>d. back (n d) = d"
    by simp
  then have "inj n"
    by (rule inj_on_inverseI)
  with narrowing_not_injective show False
    by blast
qed

text \<open>
  Every \<open>double\<close> that holds the value of a normal \<open>float\<close> (sign \<open>s\<close>, \<open>float\<close> exponent
  \<open>e\<close> from 1 to 254, 23 fraction bits \<open>m\<close>) survives the narrowing unchanged. First the
  three bit fields of a pattern, by division.
\<close>

lemma fields:
  fixes B C hi mid lo :: nat
  assumes "mid < C" and "lo < B"
  shows "(hi * (C * B) + mid * B + lo) div (C * B) = hi"
    and "(hi * (C * B) + mid * B + lo) div B mod C = mid"
    and "(hi * (C * B) + mid * B + lo) mod B = lo"
proof -
  have "mid * B + lo < (mid + 1) * B"
    using assms(2) by simp
  also have "\<dots> \<le> C * B"
    using assms(1) by (intro mult_le_mono1) simp
  finally have small: "mid * B + lo < C * B" .
  from assms have pos: "C * B \<noteq> 0"
    by auto
  have "(hi * (C * B) + (mid * B + lo)) div (C * B) = hi + (mid * B + lo) div (C * B)"
    using pos by (rule div_mult_self3)
  with small show "(hi * (C * B) + mid * B + lo) div (C * B) = hi"
    by (simp add: add.assoc)
  have e: "hi * (C * B) + mid * B + lo = (hi * C + mid) * B + lo"
    by (simp add: algebra_simps)
  show "(hi * (C * B) + mid * B + lo) div B mod C = mid"
    unfolding e using assms by simp
  show "(hi * (C * B) + mid * B + lo) mod B = lo"
    unfolding e using assms by simp
qed

lemma round_shift_exact: "0 < k \<Longrightarrow> round_shift (a * 2 ^ k) k = a"
  by (simp add: round_shift_def)


lemma unat_of_nat64: "n < 2 ^ 64 \<Longrightarrow> unat (word_of_nat n :: 64 word) = n"
  by (simp add: take_bit_nat_eq_self unsigned_of_nat)

lemma unat_of_nat32: "n < 2 ^ 32 \<Longrightarrow> unat (word_of_nat n :: 32 word) = n"
  by (simp add: take_bit_nat_eq_self unsigned_of_nat)

lemma double_to_float_normal:
  assumes "s < 2" and "1 \<le> e" and "e \<le> 254" and "m < 2 ^ 23"
  shows "double_to_float (word_of_nat (s * 2 ^ 63 + (e + 896) * 2 ^ 52 + m * 2 ^ 29))
           = word_of_nat (s * 2 ^ 31 + e * 2 ^ 23 + m)"
proof -
  define n where "n = s * 2 ^ 63 + (e + 896) * 2 ^ 52 + m * 2 ^ 29"
  have m29: "m * 2 ^ 29 < 2 ^ 52"
    using assms(4) by simp
  have e11: "e + 896 < 2 ^ 11"
    using assms(3) by simp
  have n_eq: "n = s * (2 ^ 11 * 2 ^ 52) + (e + 896) * 2 ^ 52 + m * 2 ^ 29"
    by (simp add: n_def)
  have f1: "n div 2 ^ 63 = s"
    using fields(1) [OF e11 m29, of s] by (simp add: n_eq)
  have f2: "n div 2 ^ 52 mod 2 ^ 11 = e + 896"
    using fields(2) [OF e11 m29, of s] by (simp add: n_eq)
  have f3: "n mod 2 ^ 52 = m * 2 ^ 29"
    using fields(3) [OF e11 m29, of s] by (simp add: n_eq)
  have lt: "n < 2 ^ 64"
    using assms(1) e11 m29 by (simp add: n_def)
  have un: "unat (word_of_nat n :: 64 word) = n"
    using lt by (rule unat_of_nat64)
  have "e * 2 ^ 52 + m * 2 ^ 29 = (e * 2 ^ 23 + m) * 2 ^ 29"
    by simp
  then have rs: "round_shift (e * 2 ^ 52 + m * 2 ^ 29) 29 = e * 2 ^ 23 + m"
    by (simp only: round_shift_exact)
  have k: "e * 2 ^ 23 + m < 0x7F800000"
    using assms(3,4) by simp
  have "double_to_float (word_of_nat n) = word_of_nat (s * 2 ^ 31 + e * 2 ^ 23 + m)"
    unfolding double_to_float_def Let_def un f1 f2 f3
    using assms(2,3) rs k by (simp add: min_def)
  then show ?thesis
    by (simp only: n_def)
qed


lemma float_to_double_normal:
  assumes "s < 2" and "1 \<le> e" and "e \<le> 254" and "m < 2 ^ 23"
  shows "float_to_double (word_of_nat (s * 2 ^ 31 + e * 2 ^ 23 + m))
           = word_of_nat (s * 2 ^ 63 + (e + 896) * 2 ^ 52 + m * 2 ^ 29)"
proof -
  define n where "n = s * 2 ^ 31 + e * 2 ^ 23 + m"
  have e8: "e < 2 ^ 8"
    using assms(3) by simp
  have n_eq: "n = s * (2 ^ 8 * 2 ^ 23) + e * 2 ^ 23 + m"
    by (simp add: n_def)
  have f1: "n div 2 ^ 31 = s"
    using fields(1) [OF e8 assms(4), of s] by (simp add: n_eq)
  have f2: "n div 2 ^ 23 mod 2 ^ 8 = e"
    using fields(2) [OF e8 assms(4), of s] by (simp add: n_eq)
  have f3: "n mod 2 ^ 23 = m"
    using fields(3) [OF e8 assms(4), of s] by (simp add: n_eq)
  have lt: "n < 2 ^ 32"
    using assms(1,4) e8 by (simp add: n_def)
  have un: "unat (word_of_nat n :: 32 word) = n"
    using lt by (rule unat_of_nat32)
  have "float_to_double (word_of_nat n)
          = word_of_nat (s * 2 ^ 63 + (e + 896) * 2 ^ 52 + m * 2 ^ 29)"
    unfolding float_to_double_def Let_def un f1 f2 f3
    using assms(2,3) by (simp add: add.assoc)
  then show ?thesis
    by (simp only: n_def)
qed

lemma float_exact_normal:
  assumes "s < 2" and "1 \<le> e" and "e \<le> 254" and "m < 2 ^ 23"
  shows "float_exact (word_of_nat (s * 2 ^ 63 + (e + 896) * 2 ^ 52 + m * 2 ^ 29))"
  unfolding float_exact_def
  by (simp only: double_to_float_normal [OF assms] float_to_double_normal [OF assms])

text \<open>The two conversions at zero and at the doubles nearest to 0.6 and to 0.8.\<close>

lemma double_to_float_zero: "double_to_float 0 = 0"
  by (simp add: double_to_float_def)

lemma float_to_double_zero: "float_to_double 0 = 0"
  by (simp add: float_to_double_def)

lemma double_to_float_06: "double_to_float 0x3FE3333333333333 = 0x3F19999A"
  by (simp add: double_to_float_def round_shift_def)

lemma double_to_float_08: "double_to_float 0x3FE999999999999A = 0x3F4CCCCD"
  by (simp add: double_to_float_def round_shift_def)

lemma float_to_double_06: "float_to_double 0x3F19999A = 0x3FE3333340000000"
  by (simp add: float_to_double_def)

lemma float_to_double_08: "float_to_double 0x3F4CCCCD = 0x3FE99999A0000000"
  by (simp add: float_to_double_def)

text \<open>
  Claim C1, as the code has it. In the message that \<open>set_position_target_local_ned\<close> sends,
  the five scalar arguments are copied unchanged into \<open>time_boot_ms\<close>, \<open>coordinate_frame\<close>,
  \<open>type_mask\<close>, \<open>yaw\<close> and \<open>yaw_rate\<close>, and each vector goes into its triple axis by axis:
  \<open>p\<close> into \<open>x, y, z\<close>, \<open>v\<close> into \<open>vx, vy, vz\<close>, \<open>af\<close> into \<open>afx, afy, afz\<close>, each component
  narrowed from \<open>double\<close> to the \<open>float\<close> of the field. Reading the nine fields back gives the
  original vectors exactly whenever their components are representable as \<open>float\<close>
  (\<open>float_exact\<close>, which by \<open>float_exact_normal\<close> covers every normal \<open>float\<close> value).
\<close>

theorem set_position_target_local_ned_fields:
  "(let sp = last (sent (set_position_target_local_ned t cf tm p v af yw yr uas)) in
      SET_POSITION_TARGET_LOCAL_NED.time_boot_ms sp = t
    \<and> SET_POSITION_TARGET_LOCAL_NED.coordinate_frame sp = cf
    \<and> SET_POSITION_TARGET_LOCAL_NED.type_mask sp = tm
    \<and> SET_POSITION_TARGET_LOCAL_NED.yaw sp = yw
    \<and> SET_POSITION_TARGET_LOCAL_NED.yaw_rate sp = yr
    \<and> SET_POSITION_TARGET_LOCAL_NED.x sp = double_to_float (Vector3d.x p)
    \<and> SET_POSITION_TARGET_LOCAL_NED.y sp = double_to_float (Vector3d.y p)
    \<and> SET_POSITION_TARGET_LOCAL_NED.z sp = double_to_float (Vector3d.z p)
    \<and> SET_POSITION_TARGET_LOCAL_NED.vx sp = double_to_float (Vector3d.x v)
    \<and> SET_POSITION_TARGET_LOCAL_NED.vy sp = double_to_float (Vector3d.y v)
    \<and> SET_POSITION_TARGET_LOCAL_NED.vz sp = double_to_float (Vector3d.z v)
    \<and> SET_POSITION_TARGET_LOCAL_NED.afx sp = double_to_float (Vector3d.x af)
    \<and> SET_POSITION_TARGET_LOCAL_NED.afy sp = double_to_float (Vector3d.y af)
    \<and> SET_POSITION_TARGET_LOCAL_NED.afz sp = double_to_float (Vector3d.z af)
    \<and> (float_exact (Vector3d.x p) \<and> float_exact (Vector3d.y p) \<and> float_exact (Vector3d.z p)
         \<longrightarrow> \<lparr>Vector3d.x = float_to_double (SET_POSITION_TARGET_LOCAL_NED.x sp),
               y = float_to_double (SET_POSITION_TARGET_LOCAL_NED.y sp),
               z = float_to_double (SET_POSITION_TARGET_LOCAL_NED.z sp)\<rparr> = p)
    \<and> (float_exact (Vector3d.x v) \<and> float_exact (Vector3d.y v) \<and> float_exact (Vector3d.z v)
         \<longrightarrow> \<lparr>Vector3d.x = float_to_double (SET_POSITION_TARGET_LOCAL_NED.vx sp),
               y = float_to_double (SET_POSITION_TARGET_LOCAL_NED.vy sp),
               z = float_to_double (SET_POSITION_TARGET_LOCAL_NED.vz sp)\<rparr> = v)
    \<and> (float_exact (Vector3d.x af) \<and> float_exact (Vector3d.y af) \<and> float_exact (Vector3d.z af)
         \<longrightarrow> \<lparr>Vector3d.x = float_to_double (SET_POSITION_TARGET_LOCAL_NED.afx sp),
               y = float_to_double (SET_POSITION_TARGET_LOCAL_NED.afy sp),
               z = float_to_double (SET_POSITION_TARGET_LOCAL_NED.afz sp)\<rparr> = af))"
  by (simp add: encoder_defs float_exact_round_trip)

text \<open>The vector \<open>(1.0, 2.0, -0.25)\<close> is representable and comes back unchanged.\<close>

theorem set_position_target_local_ned_fields_witness:
  "(let p = \<lparr>Vector3d.x = 0x3FF0000000000000, y = 0x4000000000000000, z = 0xBFD0000000000000\<rparr>;
        sp = last (sent (set_position_target_local_ned 0 0 0 p p p 0 0
               (\<lparr>msg_set_target = id, sent = []\<rparr>
                  :: (u16 SET_POSITION_TARGET_LOCAL_NED_scheme) UAS)))
    in (float_exact (Vector3d.x p) \<and> float_exact (Vector3d.y p) \<and> float_exact (Vector3d.z p))
     \<and> \<lparr>Vector3d.x = float_to_double (SET_POSITION_TARGET_LOCAL_NED.x sp),
         y = float_to_double (SET_POSITION_TARGET_LOCAL_NED.y sp),
         z = float_to_double (SET_POSITION_TARGET_LOCAL_NED.z sp)\<rparr> = p)"
proof -
  let ?p = "\<lparr>Vector3d.x = 0x3FF0000000000000, y = 0x4000000000000000,
             z = 0xBFD0000000000000\<rparr>"
  let ?u = "\<lparr>msg_set_target = id, sent = []\<rparr>
              :: (u16 SET_POSITION_TARGET_LOCAL_NED_scheme) UAS"
  have e: "float_exact (Vector3d.x ?p) \<and> float_exact (Vector3d.y ?p)
           \<and> float_exact (Vector3d.z ?p)"
    by (simp add: float_exact_def double_to_float_def round_shift_def float_to_double_def)
  show ?thesis
    using e set_position_target_local_ned_fields [of 0 0 0 ?p ?p ?p 0 0 ?u]
    unfolding Let_def by blast
qed

text \<open>
  The round trip is not exact for every input. The \<open>double\<close> nearest to 0.1 is
  \<open>0x3FB999999999999A\<close>; the field \<open>x\<close> receives the \<open>float\<close> \<open>0x3DCCCCCD\<close>, and reading it
  back gives \<open>0x3FB99999A0000000\<close>, which is 0.100000001490116.
\<close>

theorem set_position_target_local_ned_counterexample:
  "float_to_double
     (SET_POSITION_TARGET_LOCAL_NED.x
        (last (sent (set_position_target_local_ned 0 0 0
           \<lparr>Vector3d.x = 0x3FB999999999999A, y = 0, z = 0\<rparr>
           \<lparr>Vector3d.x = 0, y = 0, z = 0\<rparr> \<lparr>Vector3d.x = 0, y = 0, z = 0\<rparr> 0 0
           (\<lparr>msg_set_target = id, sent = []\<rparr>
              :: (u16 SET_POSITION_TARGET_LOCAL_NED_scheme) UAS)))))
   = 0x3FB99999A0000000
   \<and> (0x3FB99999A0000000 :: double)
       \<noteq> Vector3d.x \<lparr>Vector3d.x = 0x3FB999999999999A, y = 0, z = 0\<rparr>"
  by (simp add: encoder_defs double_to_float_def round_shift_def float_to_double_def)

text \<open>
  Claim C4, as the code has it. Each of the three mixin functions performs the send itself:
  its last statement hands the message it has filled in to \<open>send_message\<close>, so the call adds
  exactly one message after those sent before; the rest of the UAS is unchanged.
\<close>

theorem mixins_send:
  "sent (set_position_target_local_ned t1 cf1 tm1 p1 v1 af1 yw1 yr1 uas1)
     = sent uas1 @ [last (sent (set_position_target_local_ned t1 cf1 tm1 p1 v1 af1 yw1 yr1 uas1))]
   \<and> sent (set_position_target_global_int t2 cf2 tm2 lat lon al v2 af2 yw2 yr2 uas2)
     = sent uas2 @ [last (sent (set_position_target_global_int t2 cf2 tm2 lat lon al v2 af2
                                  yw2 yr2 uas2))]
   \<and> sent (set_attitude_target t3 tm3 orientation body_rate th uas3)
     = sent uas3 @ [last (sent (set_attitude_target t3 tm3 orientation body_rate th uas3))]
   \<and> msg_set_target (set_position_target_local_ned t1 cf1 tm1 p1 v1 af1 yw1 yr1 uas1)
     = msg_set_target uas1
   \<and> msg_set_target (set_position_target_global_int t2 cf2 tm2 lat lon al v2 af2 yw2 yr2 uas2)
     = msg_set_target uas2
   \<and> msg_set_target (set_attitude_target t3 tm3 orientation body_rate th uas3)
     = msg_set_target uas3"
  by (simp add: encoder_defs)

text \<open>On a UAS that has sent nothing, one call of each mixin function leaves one sent message.\<close>

theorem mixins_send_counterexample:
  "sent (\<lparr>msg_set_target = id, sent = []\<rparr> :: (u16 SET_POSITION_TARGET_LOCAL_NED_scheme) UAS) = []
   \<and> length (sent (set_position_target_local_ned 0 0 0
         \<lparr>Vector3d.x = 0, y = 0, z = 0\<rparr> \<lparr>Vector3d.x = 0, y = 0, z = 0\<rparr>
         \<lparr>Vector3d.x = 0, y = 0, z = 0\<rparr> 0 0
         (\<lparr>msg_set_target = id, sent = []\<rparr>
            :: (u16 SET_POSITION_TARGET_LOCAL_NED_scheme) UAS))) = 1
   \<and> length (sent (set_position_target_global_int 0 0 0 0 0 0
         \<lparr>Vector3d.x = 0, y = 0, z = 0\<rparr> \<lparr>Vector3d.x = 0, y = 0, z = 0\<rparr> 0 0
         (\<lparr>msg_set_target = id, sent = []\<rparr>
            :: (u16 SET_POSITION_TARGET_GLOBAL_INT_scheme) UAS))) = 1
   \<and> length (sent (set_attitude_target 0 0
         \<lparr>w = 0x3FF0000000000000, x = 0, y = 0, z = 0\<rparr> \<lparr>Vector3d.x = 0, y = 0, z = 0\<rparr> 0
         (\<lparr>msg_set_target = id, sent = []\<rparr>
            :: (u16 SET_ATTITUDE_TARGET_scheme) UAS))) = 1"
  by (simp add: encoder_defs)

text \<open>
  Claim C5, as the code has it. \<open>set_attitude_target\<close> stores in \<open>q\<close> exactly what
  \<open>quaternion_to_mavlink\<close> makes of the orientation, and no later assignment disturbs it.
  Decoding \<open>q\<close> gives each component of the orientation narrowed to \<open>float\<close> and widened
  again; when the four components are representable as \<open>float\<close> the decoded quaternion is
  the orientation itself, hence the same rotation.
\<close>

theorem set_attitude_target_orientation:
  "(let sp = last (sent (set_attitude_target t tm orientation body_rate th uas)) in
      q sp = quaternion_to_mavlink orientation
    \<and> mavlink_to_quaternion (q sp)
        = \<lparr>w = float_to_double (double_to_float (w orientation)),
           x = float_to_double (double_to_float (Quaterniond.x orientation)),
           y = float_to_double (double_to_float (Quaterniond.y orientation)),
           z = float_to_double (double_to_float (Quaterniond.z orientation))\<rparr>
    \<and> (float_exact (w orientation) \<and> float_exact (Quaterniond.x orientation)
         \<and> float_exact (Quaterniond.y orientation) \<and> float_exact (Quaterniond.z orientation)
        \<longrightarrow> mavlink_to_quaternion (q sp) = orientation
            \<and> same_rotation (mavlink_to_quaternion (q sp)) orientation))"
  by (simp add: encoder_defs quaternion_to_mavlink_def mavlink_to_quaternion_def
      same_rotation_def float_exact_round_trip)

text \<open>The unit quaternion \<open>(0.5, -0.5, 0.5, 0.5)\<close> is representable and is decoded unchanged.\<close>

theorem set_attitude_target_orientation_witness:
  "(let o1 = \<lparr>w = 0x3FE0000000000000, x = 0xBFE0000000000000, y = 0x3FE0000000000000,
              z = 0x3FE0000000000000\<rparr>;
        sp = last (sent (set_attitude_target 0 0 o1 \<lparr>Vector3d.x = 0, y = 0, z = 0\<rparr> 0
               (\<lparr>msg_set_target = id, sent = []\<rparr> :: (u16 SET_ATTITUDE_TARGET_scheme) UAS)))
    in (float_exact (w o1) \<and> float_exact (Quaterniond.x o1) \<and> float_exact (Quaterniond.y o1)
        \<and> float_exact (Quaterniond.z o1))
     \<and> q sp = (0x3F000000, 0xBF000000, 0x3F000000, 0x3F000000)
     \<and> same_rotation (mavlink_to_quaternion (q sp)) o1)"
proof -
  let ?o = "\<lparr>w = 0x3FE0000000000000, x = 0xBFE0000000000000, y = 0x3FE0000000000000,
              z = 0x3FE0000000000000\<rparr>"
  let ?u = "\<lparr>msg_set_target = id, sent = []\<rparr> :: (u16 SET_ATTITUDE_TARGET_scheme) UAS"
  have e: "float_exact (w ?o) \<and> float_exact (Quaterniond.x ?o) \<and> float_exact (Quaterniond.y ?o)
        \<and> float_exact (Quaterniond.z ?o)"
    by (simp add: float_exact_def double_to_float_def round_shift_def float_to_double_def)
  have c: "quaternion_to_mavlink ?o = (0x3F000000, 0xBF000000, 0x3F000000, 0x3F000000)"
    by (simp add: quaternion_to_mavlink_def double_to_float_def round_shift_def)
  show ?thesis
    using e c set_attitude_target_orientation [of 0 0 ?o "\<lparr>Vector3d.x = 0, y = 0, z = 0\<rparr>" 0 ?u]
    unfolding Let_def by metis
qed

text \<open>
  The unit quaternion \<open>(0.6, 0.8, 0, 0)\<close> is not representable: its decoding has
  \<open>w = 0x3FE3333340000000\<close> and \<open>x = 0x3FE99999A0000000\<close>, that is
  \<open>(0.6000000238, 0.8000000119, 0, 0)\<close>, which is neither the quaternion nor its negation
  (nor a multiple of it: the two components grow by different factors).
\<close>

theorem set_attitude_target_orientation_counterexample:
  "mavlink_to_quaternion
     (q (last (sent (set_attitude_target 0 0
        \<lparr>w = 0x3FE3333333333333, x = 0x3FE999999999999A, y = 0, z = 0\<rparr>
        \<lparr>Vector3d.x = 0, y = 0, z = 0\<rparr> 0
        (\<lparr>msg_set_target = id, sent = []\<rparr> :: (u16 SET_ATTITUDE_TARGET_scheme) UAS)))))
     = \<lparr>w = 0x3FE3333340000000, x = 0x3FE99999A0000000, y = 0, z = 0\<rparr>
   \<and> qneg \<lparr>w = 0x3FE3333333333333, x = 0x3FE999999999999A, y = 0, z = 0\<rparr>
     = \<lparr>w = 0xBFE3333333333333, x = 0xBFE999999999999A, y = 0x8000000000000000,
        z = 0x8000000000000000\<rparr>
   \<and> \<not> same_rotation
         (mavlink_to_quaternion
            (q (last (sent (set_attitude_target 0 0
               \<lparr>w = 0x3FE3333333333333, x = 0x3FE999999999999A, y = 0, z = 0\<rparr>
               \<lparr>Vector3d.x = 0, y = 0, z = 0\<rparr> 0
               (\<lparr>msg_set_target = id, sent = []\<rparr> :: (u16 SET_ATTITUDE_TARGET_scheme) UAS))))))
         \<lparr>w = 0x3FE3333333333333, x = 0x3FE999999999999A, y = 0, z = 0\<rparr>"
proof -
  let ?o = "\<lparr>w = 0x3FE3333333333333, x = 0x3FE999999999999A, y = 0, z = 0\<rparr>"
  let ?sp = "last (sent (set_attitude_target 0 0 ?o \<lparr>Vector3d.x = 0, y = 0, z = 0\<rparr> 0
               (\<lparr>msg_set_target = id, sent = []\<rparr> :: (u16 SET_ATTITUDE_TARGET_scheme) UAS)))"
  have dec: "mavlink_to_quaternion (q ?sp)
         = \<lparr>w = 0x3FE3333340000000, x = 0x3FE99999A0000000, y = 0, z = 0\<rparr>"
    by (simp add: encoder_defs quaternion_to_mavlink_def mavlink_to_quaternion_def
        double_to_float_06 double_to_float_08 double_to_float_zero
        float_to_double_06 float_to_double_08 float_to_double_zero)
  have neg: "qneg ?o = \<lparr>w = 0xBFE3333333333333, x = 0xBFE999999999999A,
                        y = 0x8000000000000000, z = 0x8000000000000000\<rparr>"
    by (simp add: qneg_def)
  have "\<not> same_rotation (mavlink_to_quaternion (q ?sp)) ?o"
    unfolding same_rotation_def dec neg by simp
  with dec neg show ?thesis
    by blast
qed

text \<open>
  Claim C6. In the message that \<open>set_attitude_target\<close> sends, \<open>body_roll_rate\<close>,
  \<open>body_pitch_rate\<close> and \<open>body_yaw_rate\<close> hold the components 0, 1 and 2 of \<open>body_rate\<close>, each
  by itself and only narrowed to the \<open>float\<close> of the field, and \<open>time_boot_ms\<close>, \<open>type_mask\<close>
  and \<open>thrust\<close> hold the arguments unchanged.
\<close>

theorem set_attitude_target_fields:
  "(let sp = last (sent (set_attitude_target t tm orientation body_rate th uas)) in
      body_roll_rate sp = double_to_float (Vector3d.x body_rate)
    \<and> body_pitch_rate sp = double_to_float (Vector3d.y body_rate)
    \<and> body_yaw_rate sp = double_to_float (Vector3d.z body_rate)
    \<and> SET_ATTITUDE_TARGET.time_boot_ms sp = t
    \<and> SET_ATTITUDE_TARGET.type_mask sp = tm
    \<and> thrust sp = th)"
  by (simp add: encoder_defs)

text \<open>
  Claim C7. In the message that \<open>set_position_target_global_int\<close> sends, \<open>lat_int\<close> and
  \<open>lon_int\<close> are the integer arguments as they came, \<open>alt\<close>, \<open>yaw\<close> and \<open>yaw_rate\<close> are
  the \<open>float\<close> arguments as they came, and \<open>vx, vy, vz\<close> and \<open>afx, afy, afz\<close> hold the
  components of \<open>v\<close> and \<open>af\<close> axis by axis, the same values that
  \<open>set_position_target_local_ned\<close> puts into its fields of these names.
\<close>

theorem set_position_target_global_int_fields:
  "(let sp = last (sent (set_position_target_global_int t cf tm lat lon al v af yw yr uas));
        lp = last (sent (set_position_target_local_ned t' cf' tm' p v af yw' yr' uas'))
    in lat_int sp = lat
     \<and> lon_int sp = lon
     \<and> alt sp = al
     \<and> SET_POSITION_TARGET_GLOBAL_INT.yaw sp = yw
     \<and> SET_POSITION_TARGET_GLOBAL_INT.yaw_rate sp = yr
     \<and> SET_POSITION_TARGET_GLOBAL_INT.vx sp = double_to_float (Vector3d.x v)
     \<and> SET_POSITION_TARGET_GLOBAL_INT.vy sp = double_to_float (Vector3d.y v)
     \<and> SET_POSITION_TARGET_GLOBAL_INT.vz sp = double_to_float (Vector3d.z v)
     \<and> SET_POSITION_TARGET_GLOBAL_INT.afx sp = double_to_float (Vector3d.x af)
     \<and> SET_POSITION_TARGET_GLOBAL_INT.afy sp = double_to_float (Vector3d.y af)
     \<and> SET_POSITION_TARGET_GLOBAL_INT.afz sp = double_to_float (Vector3d.z af)
     \<and> SET_POSITION_TARGET_GLOBAL_INT.vx sp = SET_POSITION_TARGET_LOCAL_NED.vx lp
     \<and> SET_POSITION_TARGET_GLOBAL_INT.vy sp = SET_POSITION_TARGET_LOCAL_NED.vy lp
     \<and> SET_POSITION_TARGET_GLOBAL_INT.vz sp = SET_POSITION_TARGET_LOCAL_NED.vz lp
     \<and> SET_POSITION_TARGET_GLOBAL_INT.afx sp = SET_POSITION_TARGET_LOCAL_NED.afx lp
     \<and> SET_POSITION_TARGET_GLOBAL_INT.afy sp = SET_POSITION_TARGET_LOCAL_NED.afy lp
     \<and> SET_POSITION_TARGET_GLOBAL_INT.afz sp = SET_POSITION_TARGET_LOCAL_NED.afz lp)"
  by (simp add: encoder_defs)

text \<open>
  Claim C8. Each of the three mixin functions starts from the all-zero structure: what the
  sent message holds beyond the fields assigned by name is what \<open>msg_set_target\<close> made of
  the zero-initialised structure, and any part \<open>g\<close> of it that \<open>msg_set_target\<close> does not
  write is zero.
\<close>

theorem mixins_zero_initialize:
  "SET_POSITION_TARGET_LOCAL_NED.more
       (last (sent (set_position_target_local_ned t1 cf1 tm1 p1 v1 af1 yw1 yr1 uas1)))
     = SET_POSITION_TARGET_LOCAL_NED.more
         (msg_set_target uas1 SET_POSITION_TARGET_LOCAL_NED_zero)
   \<and> SET_POSITION_TARGET_GLOBAL_INT.more
       (last (sent (set_position_target_global_int t2 cf2 tm2 lat lon al v2 af2 yw2 yr2 uas2)))
     = SET_POSITION_TARGET_GLOBAL_INT.more
         (msg_set_target uas2 SET_POSITION_TARGET_GLOBAL_INT_zero)
   \<and> SET_ATTITUDE_TARGET.more
       (last (sent (set_attitude_target t3 tm3 orientation body_rate th uas3)))
     = SET_ATTITUDE_TARGET.more (msg_set_target uas3 SET_ATTITUDE_TARGET_zero)
   \<and> ((\<forall>sp. g1 (SET_POSITION_TARGET_LOCAL_NED.more (msg_set_target uas1 sp))
               = g1 (SET_POSITION_TARGET_LOCAL_NED.more sp))
        \<longrightarrow> g1 (SET_POSITION_TARGET_LOCAL_NED.more
                 (last (sent (set_position_target_local_ned t1 cf1 tm1 p1 v1 af1 yw1 yr1 uas1))))
            = g1 0)
   \<and> ((\<forall>sp. g2 (SET_POSITION_TARGET_GLOBAL_INT.more (msg_set_target uas2 sp))
               = g2 (SET_POSITION_TARGET_GLOBAL_INT.more sp))
        \<longrightarrow> g2 (SET_POSITION_TARGET_GLOBAL_INT.more
                 (last (sent (set_position_target_global_int t2 cf2 tm2 lat lon al v2 af2
                                yw2 yr2 uas2))))
            = g2 0)
   \<and> ((\<forall>sp. g3 (SET_ATTITUDE_TARGET.more (msg_set_target uas3 sp))
               = g3 (SET_ATTITUDE_TARGET.more sp))
        \<longrightarrow> g3 (SET_ATTITUDE_TARGET.more
                 (last (sent (set_attitude_target t3 tm3 orientation body_rate th uas3))))
            = g3 0)"
  by (simp add: encoder_defs SET_POSITION_TARGET_LOCAL_NED_zero_def
      SET_POSITION_TARGET_GLOBAL_INT_zero_def SET_ATTITUDE_TARGET_zero_def)

text \<open>
  A remainder of 32 bits whose low 16 bits \<open>msg_set_target\<close> fills: the high 16 bits of the
  sent message are zero.
\<close>

theorem mixins_zero_initialize_witness:
  "(let u1 = \<lparr>msg_set_target =
               (\<lambda>sp :: u32 SET_POSITION_TARGET_LOCAL_NED_scheme.
                  sp\<lparr>SET_POSITION_TARGET_LOCAL_NED.more :=
                       SET_POSITION_TARGET_LOCAL_NED.more sp OR 0x0101\<rparr>),
             sent = []\<rparr>;
        u2 = \<lparr>msg_set_target =
               (\<lambda>sp :: u32 SET_POSITION_TARGET_GLOBAL_INT_scheme.
                  sp\<lparr>SET_POSITION_TARGET_GLOBAL_INT.more :=
                       SET_POSITION_TARGET_GLOBAL_INT.more sp OR 0x0101\<rparr>),
             sent = []\<rparr>;
        u3 = \<lparr>msg_set_target =
               (\<lambda>sp :: u32 SET_ATTITUDE_TARGET_scheme.
                  sp\<lparr>SET_ATTITUDE_TARGET.more := SET_ATTITUDE_TARGET.more sp OR 0x0101\<rparr>),
             sent = []\<rparr>;
        v0 = \<lparr>Vector3d.x = 0, y = 0, z = 0\<rparr>
    in (\<forall>sp. drop_bit 16 (SET_POSITION_TARGET_LOCAL_NED.more (msg_set_target u1 sp))
              = drop_bit 16 (SET_POSITION_TARGET_LOCAL_NED.more sp))
     \<and> drop_bit 16 (SET_POSITION_TARGET_LOCAL_NED.more
          (last (sent (set_position_target_local_ned 7 1 8 v0 v0 v0 0 0 u1)))) = 0
     \<and> (\<forall>sp. drop_bit 16 (SET_POSITION_TARGET_GLOBAL_INT.more (msg_set_target u2 sp))
              = drop_bit 16 (SET_POSITION_TARGET_GLOBAL_INT.more sp))
     \<and> drop_bit 16 (SET_POSITION_TARGET_GLOBAL_INT.more
          (last (sent (set_position_target_global_int 7 1 8 5 6 0 v0 v0 0 0 u2)))) = 0
     \<and> (\<forall>sp. drop_bit 16 (SET_ATTITUDE_TARGET.more (msg_set_target u3 sp))
              = drop_bit 16 (SET_ATTITUDE_TARGET.more sp))
     \<and> drop_bit 16 (SET_ATTITUDE_TARGET.more
          (last (sent (set_attitude_target 7 8
             \<lparr>w = 0x3FF0000000000000, x = 0, y = 0, z = 0\<rparr> v0 0 u3)))) = 0)"
proof -
  let ?u1 = "\<lparr>msg_set_target =
               (\<lambda>sp :: u32 SET_POSITION_TARGET_LOCAL_NED_scheme.
                  sp\<lparr>SET_POSITION_TARGET_LOCAL_NED.more :=
                       SET_POSITION_TARGET_LOCAL_NED.more sp OR 0x0101\<rparr>),
             sent = []\<rparr>"
  let ?u2 = "\<lparr>msg_set_target =
               (\<lambda>sp :: u32 SET_POSITION_TARGET_GLOBAL_INT_scheme.
                  sp\<lparr>SET_POSITION_TARGET_GLOBAL_INT.more :=
                       SET_POSITION_TARGET_GLOBAL_INT.more sp OR 0x0101\<rparr>),
             sent = []\<rparr>"
  let ?u3 = "\<lparr>msg_set_target =
               (\<lambda>sp :: u32 SET_ATTITUDE_TARGET_scheme.
                  sp\<lparr>SET_ATTITUDE_TARGET.more := SET_ATTITUDE_TARGET.more sp OR 0x0101\<rparr>),
             sent = []\<rparr>"
  let ?v0 = "\<lparr>Vector3d.x = 0, y = 0, z = 0\<rparr>"
  let ?g = "drop_bit 16 :: u32 \<Rightarrow> u32"
  have h1: "\<forall>sp. ?g (SET_POSITION_TARGET_LOCAL_NED.more (msg_set_target ?u1 sp))
              = ?g (SET_POSITION_TARGET_LOCAL_NED.more sp)"
    by simp
  have h2: "\<forall>sp. ?g (SET_POSITION_TARGET_GLOBAL_INT.more (msg_set_target ?u2 sp))
              = ?g (SET_POSITION_TARGET_GLOBAL_INT.more sp)"
    by simp
  have h3: "\<forall>sp. ?g (SET_ATTITUDE_TARGET.more (msg_set_target ?u3 sp))
              = ?g (SET_ATTITUDE_TARGET.more sp)"
    by simp
  have z: "?g 0 = 0"
    by simp
  show ?thesis
    using h1 h2 h3 z
      mixins_zero_initialize [of 7 1 8 ?v0 ?v0 ?v0 0 0 ?u1 7 1 8 5 6 0 ?v0 ?v0 0 0 ?u2
        7 8 "\<lparr>w = 0x3FF0000000000000, x = 0, y = 0, z = 0\<rparr>" ?v0 0 ?u3 ?g ?g ?g]
    unfolding Let_def by metis
qed

end
